theory Spec2Isabelle
  imports Main
begin

section \<open>Python string primitives used by \<open>crawler.py\<close>\<close>

text \<open>
  Text and byte strings are \<open>char list\<close>; one \<open>char\<close> is one byte, so the model covers
  ASCII text, and \<open>str.lower()\<close> folds the letters \<open>A\<close>..\<open>Z\<close> only.
\<close>

type_synonym bytes = string

definition lower_char :: "char \<Rightarrow> char" where
  "lower_char c =
     (let n = (of_char c :: nat) in if 65 \<le> n \<and> n \<le> 90 then char_of (n + 32) else c)"

definition lower :: "string \<Rightarrow> string" where
  "lower s = map lower_char s"

text \<open>\<open>s.startswith(p)\<close> and \<open>s.endswith(p)\<close>.\<close>

definition startswith :: "string \<Rightarrow> string \<Rightarrow> bool" where
  "startswith s p = (take (length p) s = p)"

definition endswith :: "string \<Rightarrow> string \<Rightarrow> bool" where
  "endswith s p = (length p \<le> length s \<and> drop (length s - length p) s = p)"

text \<open>\<open>sub in s\<close>: \<open>sub\<close> occurs in \<open>s\<close> as a contiguous substring.\<close>

fun contains :: "string \<Rightarrow> string \<Rightarrow> bool" where
  "contains [] sub = (sub = [])"
| "contains (c # cs) sub = (startswith (c # cs) sub \<or> contains cs sub)"

text \<open>\<open>s.replace(' ', '')\<close>.\<close>

definition remove_spaces :: "string \<Rightarrow> string" where
  "remove_spaces s = filter (\<lambda>c. c \<noteq> CHR '' '') s"

text \<open>\<open>s.strip()\<close> removes leading and trailing whitespace; \<open>s.strip(chars)\<close> removes
  leading and trailing characters of \<open>chars\<close>.\<close>

definition is_space :: "char \<Rightarrow> bool" where
  "is_space c =
     (let n = (of_char c :: nat) in n = 32 \<or> (9 \<le> n \<and> n \<le> 13) \<or> (28 \<le> n \<and> n \<le> 31))"

definition strip_with :: "(char \<Rightarrow> bool) \<Rightarrow> string \<Rightarrow> string" where
  "strip_with P s = rev (dropWhile P (rev (dropWhile P s)))"

definition strip :: "string \<Rightarrow> string" where
  "strip s = strip_with is_space s"

definition strip_chars :: "string \<Rightarrow> string \<Rightarrow> string" where
  "strip_chars chars s = strip_with (\<lambda>c. c \<in> set chars) s"

text \<open>\<open>' '.join(xs)\<close>.\<close>

fun join_space :: "string list \<Rightarrow> string" where
  "join_space [] = []"
| "join_space [x] = x"
| "join_space (x # y # ys) = x @ '' '' @ join_space (y # ys)"

text \<open>
  \<open>s.split(sep)\<close> for a separator that is not empty (every separator in the source is a
  literal): the pieces between the occurrences of \<open>sep\<close>, scanned from the left without
  overlap. \<open>cur\<close> holds the current piece, reversed.
\<close>

function split_from :: "string \<Rightarrow> string \<Rightarrow> string \<Rightarrow> string list" where
  "split_from sep cur [] = [rev cur]"
| "split_from sep cur (c # cs) =
     (if sep \<noteq> [] \<and> startswith (c # cs) sep
      then rev cur # split_from sep [] (drop (length sep) (c # cs))
      else split_from sep (c # cur) cs)"
  by pat_completeness auto
termination
  by (relation "measure (\<lambda>(sep, cur, s). length s)") (auto simp: neq_Nil_conv)

definition split :: "string \<Rightarrow> string \<Rightarrow> string list" where
  "split s sep = split_from sep [] s"

text \<open>Truthiness of a Python string, and of a value that is a string or \<open>None\<close>.\<close>

definition truthy :: "string \<Rightarrow> bool" where
  "truthy s = (s \<noteq> [])"

definition truthy_opt :: "string option \<Rightarrow> bool" where
  "truthy_opt v = (case v of None \<Rightarrow> False | Some s \<Rightarrow> truthy s)"

section \<open>The parsed document\<close>

text \<open>
  What \<open>BeautifulSoup(text, 'html.parser')\<close> returns: a tree of tags and strings. A tag has
  its name, its single-valued attributes, the tokens of its \<open>class\<close> attribute (a list in
  BeautifulSoup; empty when the attribute is absent, which is how every read in the source
  defaults it) and its children. The document itself is the root tag.
\<close>

datatype node =
    NavigableString string
  | Tag (name: string) (attrs: "(string \<times> string) list") (classes: "string list")
        (contents: "node list")
where
  "name (NavigableString s) = []"
| "attrs (NavigableString s) = []"
| "classes (NavigableString s) = []"
| "contents (NavigableString s) = []"

fun is_tag :: "node \<Rightarrow> bool" where
  "is_tag (NavigableString s) = False"
| "is_tag (Tag n a c ch) = True"

text \<open>All nodes below a node, in document order.\<close>

fun descendants :: "node \<Rightarrow> node list" where
  "descendants (NavigableString s) = []"
| "descendants (Tag n a c ch) = concat (map (\<lambda>x. x # descendants x) ch)"

text \<open>\<open>tag.get_text()\<close>: the strings below the tag, concatenated.\<close>

fun get_text :: "node \<Rightarrow> string" where
  "get_text (NavigableString s) = s"
| "get_text (Tag n a c ch) = concat (map get_text ch)"

text \<open>\<open>tag.get(key)\<close> and \<open>tag.get(key, default)\<close> on a single-valued attribute.\<close>

definition attr :: "node \<Rightarrow> string \<Rightarrow> string option" where
  "attr t k = map_of (attrs t) k"

definition attr_or :: "node \<Rightarrow> string \<Rightarrow> string \<Rightarrow> string" where
  "attr_or t k d = (case attr t k of None \<Rightarrow> d | Some v \<Rightarrow> v)"

text \<open>\<open>tag.find_all(nm)\<close>, \<open>tag.find(nm)\<close> and their variants with a filter on the tag.\<close>

definition find_all_where :: "node \<Rightarrow> string \<Rightarrow> (node \<Rightarrow> bool) \<Rightarrow> node list" where
  "find_all_where t nm P = filter (\<lambda>x. is_tag x \<and> name x = nm \<and> P x) (descendants t)"

definition find_all :: "node \<Rightarrow> string \<Rightarrow> node list" where
  "find_all t nm = find_all_where t nm (\<lambda>x. True)"

definition find_where :: "node \<Rightarrow> string \<Rightarrow> (node \<Rightarrow> bool) \<Rightarrow> node option" where
  "find_where t nm P = (case find_all_where t nm P of [] \<Rightarrow> None | x # xs \<Rightarrow> Some x)"

definition find_tag :: "node \<Rightarrow> string \<Rightarrow> node option" where
  "find_tag t nm = find_where t nm (\<lambda>x. True)"

section \<open>\<open>LabCrawler._is_row_green\<close>\<close>

text \<open>The condition of the \<open>if\<close> in the loop over the cells of a row.\<close>

definition cell_is_green :: "node \<Rightarrow> bool" where
  "cell_is_green cell =
     (let cell_style = lower (attr_or cell ''style'' '''');
          cell_class = lower (join_space (classes cell));
          cell_text = lower (strip (get_text cell))
      in contains cell_style ''green'' \<or> contains cell_class ''green'' \<or>
         contains cell_style ''#00ff00'' \<or> contains cell_style ''#0f0'' \<or>
         contains cell_style ''rgb(0,255,0)'' \<or>
         contains (remove_spaces cell_style) ''background-color:green'' \<or>
         contains cell_class ''success'' \<or> contains cell_class ''ready'' \<or>
         contains cell_text ''disponivel'' \<or> contains cell_text ''pronto'' \<or>
         contains cell_text ''liberado'' \<or> contains cell_text ''concluido'')"

text \<open>The loop over the cells: \<open>cell_green\<close> starts false and the loop stops at the first
  green cell.\<close>

fun cells_loop :: "node list \<Rightarrow> bool" where
  "cells_loop [] = False"
| "cells_loop (cell # cells) = (if cell_is_green cell then True else cells_loop cells)"

definition is_row_green :: "node \<Rightarrow> bool" where
  "is_row_green row =
     (let style = lower (attr_or row ''style'' '''');
          class_attr = lower (join_space (classes row));
          bgcolor = lower (attr_or row ''bgcolor'' '''');
          cells = find_all row ''td'';
          cell_green = cells_loop cells
      in contains style ''green'' \<or>
         contains class_attr ''green'' \<or>
         contains style ''#00ff00'' \<or>
         contains style ''#0f0'' \<or>
         contains style ''rgb(0,255,0)'' \<or>
         contains (remove_spaces style) ''background-color:green'' \<or>
         contains class_attr ''success'' \<or>
         contains (lower class_attr) ''ready'' \<or>
         contains (lower class_attr) ''disponivel'' \<or>
         cell_green \<or>
         contains bgcolor ''#8ff08f'' \<or>
         contains bgcolor ''green'')"

text \<open>
  The indicator vocabulary of the readiness check, one table for each place that is read:
  the \<open>style\<close> attribute of a row or a cell, the \<open>class\<close> attribute of a row, the
  \<open>class\<close> attribute of a cell, the \<open>bgcolor\<close> attribute of a row, the text of a cell.
\<close>

definition style_tokens :: "string list" where
  "style_tokens = [''green'', ''#00ff00'', ''#0f0'', ''rgb(0,255,0)'']"

definition row_class_tokens :: "string list" where
  "row_class_tokens = [''green'', ''success'', ''ready'', ''disponivel'']"

definition cell_class_tokens :: "string list" where
  "cell_class_tokens = [''green'', ''success'', ''ready'']"

definition row_bgcolor_tokens :: "string list" where
  "row_bgcolor_tokens = [''#8ff08f'', ''green'']"

definition cell_text_words :: "string list" where
  "cell_text_words = [''disponivel'', ''pronto'', ''liberado'', ''concluido'']"

definition matches_any :: "string \<Rightarrow> string list \<Rightarrow> bool" where
  "matches_any s toks = list_ex (contains s) toks"

definition style_matches :: "string \<Rightarrow> bool" where
  "style_matches style =
     (matches_any style style_tokens \<or>
      contains (remove_spaces style) ''background-color:green'')"

definition cell_indicated :: "node \<Rightarrow> bool" where
  "cell_indicated cell =
     (style_matches (lower (attr_or cell ''style'' '''')) \<or>
      matches_any (lower (join_space (classes cell))) cell_class_tokens \<or>
      matches_any (lower (strip (get_text cell))) cell_text_words)"

definition row_indicated :: "node \<Rightarrow> bool" where
  "row_indicated row =
     (style_matches (lower (attr_or row ''style'' '''')) \<or>
      matches_any (lower (join_space (classes row))) row_class_tokens \<or>
      matches_any (lower (attr_or row ''bgcolor'' '''')) row_bgcolor_tokens \<or>
      list_ex cell_indicated (find_all row ''td''))"

section \<open>The HTTP session and the libraries\<close>

text \<open>
  A response of \<open>requests\<close>: status code, headers (a case-insensitive dictionary, keyed
  here by the lower-case header name), decoded text, raw content and final URL.
\<close>

record response =
  status_code :: nat
  resp_headers :: "string \<Rightarrow> string option"
  resp_text :: string
  resp_content :: bytes
  resp_url :: string

text \<open>
  The exceptions of the model: \<open>requests.RequestException\<close> (connection errors, timeouts
  and the \<open>HTTPError\<close> of \<open>raise_for_status\<close> are subclasses of it), and any other
  exception, with the name of its class: the \<open>AssertionError\<close> or \<open>ParserRejectedMarkup\<close>
  of the parser, a \<open>ValueError\<close> of \<open>requests\<close>, the \<open>binascii.Error\<close> of the decoder.
\<close>

datatype exn = RequestException | OtherException string

text \<open>
  What the client does not own is a parameter. \<open>'w\<close> is the state of everything behind
  \<open>self.session\<close>: the cookie jar and the portal. A request returns a response or the
  exception that \<open>requests\<close> raises, and the new state either way; a POST follows
  redirects inside the library. \<open>BeautifulSoup\<close> is the parser of html, which returns the
  document or raises on markup that it rejects; \<open>b64decode\<close> returns the bytes or raises.
\<close>

record 'w env =
  session_get :: "'w \<Rightarrow> string \<Rightarrow> (exn + response) \<times> 'w"
  session_post :: "'w \<Rightarrow> string \<Rightarrow> (string \<times> string) list \<Rightarrow> (exn + response) \<times> 'w"
  BeautifulSoup :: "string \<Rightarrow> exn + node"
  b64decode :: "string \<Rightarrow> exn + bytes"

text \<open>\<open>response.raise_for_status()\<close> raises for the status codes 400 to 599.\<close>

definition raise_for_status :: "response \<Rightarrow> exn + unit" where
  "raise_for_status r =
     (if 400 \<le> status_code r \<and> status_code r < 600 then Inl RequestException else Inr ())"

text \<open>\<open>response = self.session.get(url); response.raise_for_status()\<close>.\<close>

definition get_checked :: "'w env \<Rightarrow> 'w \<Rightarrow> string \<Rightarrow> (exn + response) \<times> 'w" where
  "get_checked env w u =
     (case session_get env w u of
        (Inl e, w') \<Rightarrow> (Inl e, w')
      | (Inr r, w') \<Rightarrow>
          (case raise_for_status r of Inl e \<Rightarrow> (Inl e, w') | Inr _ \<Rightarrow> (Inr r, w')))"

definition post_checked ::
  "'w env \<Rightarrow> 'w \<Rightarrow> string \<Rightarrow> (string \<times> string) list \<Rightarrow> (exn + response) \<times> 'w" where
  "post_checked env w u d =
     (case session_post env w u d of
        (Inl e, w') \<Rightarrow> (Inl e, w')
      | (Inr r, w') \<Rightarrow>
          (case raise_for_status r of Inl e \<Rightarrow> (Inl e, w') | Inr _ \<Rightarrow> (Inr r, w')))"

text \<open>\<open>response.headers.get(key, '')\<close>.\<close>

definition header_or_empty :: "response \<Rightarrow> string \<Rightarrow> string" where
  "header_or_empty r k = (case resp_headers r (lower k) of None \<Rightarrow> [] | Some v \<Rightarrow> v)"

text \<open>\<open>except requests.RequestException: return d\<close> around a body.\<close>

definition catch_request :: "'a \<Rightarrow> exn + 'a \<Rightarrow> exn + 'a" where
  "catch_request d r =
     (case r of Inl RequestException \<Rightarrow> Inr d | Inl e \<Rightarrow> Inl e | Inr v \<Rightarrow> Inr v)"

section \<open>\<open>LabCrawler\<close>\<close>

text \<open>The fields of the client other than the session, which is part of \<open>'w\<close>.\<close>

record crawler =
  base_url :: string
  login_url :: string
  results_url :: "string option"

definition init :: crawler where
  "init = \<lparr> base_url = ''https://lablaudo.com.br'',
            login_url = ''https://lablaudo.com.br'' @ ''/acesso_paciente'',
            results_url = None \<rparr>"

text \<open>
  The URL resolution written out in \<open>check_results\<close>, \<open>get_pdf_link\<close> and \<open>download_pdf\<close>:
  \<open>if href.startswith('/'): base_url + href; elif not href.startswith('http'):
  base_url + '/' + href; else: href\<close>.
\<close>

definition absolutize :: "crawler \<Rightarrow> string \<Rightarrow> string" where
  "absolutize st href =
     (if startswith href ''/'' then base_url st @ href
      else if \<not> startswith href ''http'' then base_url st @ ''/'' @ href
      else href)"

subsection \<open>\<open>login\<close>\<close>

text \<open>\<open>login_data[k] = v\<close> and \<open>login_data.get(k)\<close> on a dictionary kept in insertion order.\<close>

fun dict_set :: "(string \<times> string) list \<Rightarrow> string \<Rightarrow> string \<Rightarrow> (string \<times> string) list" where
  "dict_set [] k v = [(k, v)]"
| "dict_set ((k', v') # d) k v = (if k' = k then (k, v) # d else (k', v') # dict_set d k v)"

definition dict_get :: "(string \<times> string) list \<Rightarrow> string \<Rightarrow> string option" where
  "dict_get d k = map_of d k"

text \<open>The loop over the hidden inputs of the form.\<close>

fun hidden_loop :: "node list \<Rightarrow> (string \<times> string) list \<Rightarrow> (string \<times> string) list" where
  "hidden_loop [] login_data = login_data"
| "hidden_loop (hidden_input # rest) login_data =
     (let name = attr hidden_input ''name'';
          val = attr_or hidden_input ''value'' ''''
      in hidden_loop rest
           (case name of
              None \<Rightarrow> login_data
            | Some n \<Rightarrow> if truthy n then dict_set login_data n val else login_data))"

text \<open>The loop over all inputs of the form.\<close>

fun fields_loop ::
  "string \<Rightarrow> string \<Rightarrow> node list \<Rightarrow> (string \<times> string) list \<Rightarrow> (string \<times> string) list" where
  "fields_loop username password [] login_data = login_data"
| "fields_loop username password (input_field # rest) login_data =
     (let field_name = attr_or input_field ''name'' '''';
          field_type = attr_or input_field ''type'' ''''
      in fields_loop username password rest
           (if field_type \<in> set [''text'', ''email'', ''number'']
               \<and> \<not> truthy_opt (dict_get login_data field_name)
            then dict_set login_data field_name username
            else if field_type = ''password'' \<and> \<not> truthy_opt (dict_get login_data field_name)
            then dict_set login_data field_name password
            else login_data))"

definition success_indicators :: "string list" where
  "success_indicators =
     [''logout'', ''sair'', ''resultados'', ''results'', ''bem-vindo'', ''welcome'',
      ''dashboard'', ''painel'', ''exames'', ''laudos'']"

text \<open>The verdict on the body of the response to the login form.\<close>

definition login_succeeded :: "string \<Rightarrow> bool" where
  "login_succeeded body =
     (let page_text = lower body;
          has_success_indicator = list_ex (\<lambda>indicator. contains page_text indicator)
                                    success_indicators;
          not_on_login = (\<not> contains page_text ''entrar'' \<or> \<not> contains page_text ''login'')
      in has_success_indicator \<or> not_on_login)"

text \<open>The form data and the URL that \<open>login\<close> submits for a form.\<close>

definition login_data_for :: "node \<Rightarrow> string \<Rightarrow> string \<Rightarrow> (string \<times> string) list" where
  "login_data_for form username password =
     fields_loop username password (find_all form ''input'')
       (hidden_loop (find_all_where form ''input'' (\<lambda>t. attr t ''type'' = Some ''hidden''))
          [(''username'', username), (''password'', password),
           (''identificacao'', username), (''senha'', password)])"

definition action_url_for :: "crawler \<Rightarrow> node \<Rightarrow> string" where
  "action_url_for st form =
     (let action_url = attr_or form ''action'' (login_url st)
      in if startswith action_url ''/'' then base_url st @ action_url
         else if \<not> startswith action_url ''http'' then login_url st
         else action_url)"

text \<open>The body of the \<open>try\<close> of \<open>login\<close>: the result or the exception, the client and the
  world afterwards.\<close>

definition login_body ::
  "'w env \<Rightarrow> crawler \<Rightarrow> 'w \<Rightarrow> string \<Rightarrow> string \<Rightarrow> (exn + bool) \<times> crawler \<times> 'w" where
  "login_body env st w username password =
     (case get_checked env w (login_url st) of
        (Inl e, w1) \<Rightarrow> (Inl e, st, w1)
      | (Inr response, w1) \<Rightarrow>
          (case BeautifulSoup env (resp_text response) of
             Inl e \<Rightarrow> (Inl e, st, w1)
           | Inr soup \<Rightarrow>
               (case find_tag soup ''form'' of
                  None \<Rightarrow> (Inr False, st, w1)
                | Some form \<Rightarrow>
                    (case post_checked env w1 (action_url_for st form)
                            (login_data_for form username password) of
                       (Inl e, w2) \<Rightarrow> (Inl e, st, w2)
                     | (Inr login_response, w2) \<Rightarrow>
                         if login_succeeded (resp_text login_response)
                         then (Inr True,
                               st\<lparr>results_url := Some (resp_url login_response)\<rparr>, w2)
                         else (Inr False, st, w2)))))"

definition login ::
  "'w env \<Rightarrow> crawler \<Rightarrow> 'w \<Rightarrow> string \<Rightarrow> string \<Rightarrow> (exn + bool) \<times> crawler \<times> 'w" where
  "login env st w username password =
     (case login_body env st w username password of
        (r, st', w') \<Rightarrow> (catch_request False r, st', w'))"

subsection \<open>\<open>check_results\<close>\<close>

text \<open>
  The first request of \<open>check_results\<close> and of \<open>get_pdf_link\<close>: the remembered results
  URL when it is set (\<open>if self.results_url\<close>), the login URL otherwise.
\<close>

definition fetch_start :: "'w env \<Rightarrow> crawler \<Rightarrow> 'w \<Rightarrow> (exn + response) \<times> 'w" where
  "fetch_start env st w =
     (case results_url st of
        None \<Rightarrow> get_checked env w (login_url st)
      | Some u \<Rightarrow> if truthy u then get_checked env w u else get_checked env w (login_url st))"

text \<open>The filter \<open>href=lambda x: x and ('resultado' in x.lower() or ...)\<close>.\<close>

definition results_link_matches :: "node \<Rightarrow> bool" where
  "results_link_matches t =
     (case attr t ''href'' of
        None \<Rightarrow> False
      | Some x \<Rightarrow> truthy x \<and> (contains (lower x) ''resultado'' \<or> contains (lower x) ''exame''
                              \<or> contains (lower x) ''laudo''))"

text \<open>
  The first part of \<open>check_results\<close>: fetch the page, and when no results URL is remembered
  or the page shows \<open>entrar\<close>, follow the first results link of the page, if there is one.
  The result is the document whose rows are judged.
\<close>

definition locate_results_page :: "'w env \<Rightarrow> crawler \<Rightarrow> 'w \<Rightarrow> (exn + node) \<times> 'w" where
  "locate_results_page env st w =
     (case fetch_start env st w of
        (Inl e, w1) \<Rightarrow> (Inl e, w1)
      | (Inr response, w1) \<Rightarrow>
          (case BeautifulSoup env (resp_text response) of
             Inl e \<Rightarrow> (Inl e, w1)
           | Inr soup \<Rightarrow>
               if \<not> truthy_opt (results_url st) \<or>
                  contains (lower (resp_text response)) ''entrar''
               then (case find_where soup ''a'' results_link_matches of
                       None \<Rightarrow> (Inr soup, w1)
                     | Some results_link \<Rightarrow>
                         (case get_checked env w1
                                 (absolutize st (attr_or results_link ''href'' '''')) of
                            (Inl e, w2) \<Rightarrow> (Inl e, w2)
                          | (Inr response2, w2) \<Rightarrow>
                              (BeautifulSoup env (resp_text response2), w2)))
               else (Inr soup, w1)))"

text \<open>The condition under which the loop over the rows skips a row.\<close>

definition row_skipped :: "node \<Rightarrow> bool" where
  "row_skipped row =
     (find_tag row ''th'' \<noteq> None \<or> find_tag row ''td'' = None \<or>
      contains (lower (get_text row)) ''visualizar laudo'' \<or>
      contains (lower (get_text row)) ''assinatura'')"

text \<open>The loop that collects \<open>results_rows\<close>.\<close>

fun rows_loop :: "node list \<Rightarrow> node list \<Rightarrow> node list" where
  "rows_loop [] results_rows = results_rows"
| "rows_loop (row # rest) results_rows =
     (if row_skipped row then rows_loop rest results_rows
      else rows_loop rest (results_rows @ [row]))"

text \<open>The loop that computes \<open>all_green\<close>; it stops at the first row that is not green.\<close>

fun green_loop :: "node list \<Rightarrow> bool" where
  "green_loop [] = True"
| "green_loop (row # rest) = (if \<not> is_row_green row then False else green_loop rest)"

text \<open>The second part of \<open>check_results\<close>, from \<open>soup.find_all('tr')\<close> on.\<close>

definition evaluate_rows :: "node \<Rightarrow> bool" where
  "evaluate_rows soup =
     (let table_rows = find_all soup ''tr''
      in if table_rows = [] then False
         else (let results_rows = rows_loop table_rows []
               in if results_rows = [] then False else green_loop results_rows))"

definition check_results_body :: "'w env \<Rightarrow> crawler \<Rightarrow> 'w \<Rightarrow> (exn + bool) \<times> crawler \<times> 'w" where
  "check_results_body env st w =
     (case locate_results_page env st w of
        (Inl e, w') \<Rightarrow> (Inl e, st, w')
      | (Inr soup, w') \<Rightarrow> (Inr (evaluate_rows soup), st, w'))"

definition check_results :: "'w env \<Rightarrow> crawler \<Rightarrow> 'w \<Rightarrow> (exn + bool) \<times> crawler \<times> 'w" where
  "check_results env st w =
     (case check_results_body env st w of
        (r, st', w') \<Rightarrow> (catch_request False r, st', w'))"

subsection \<open>\<open>get_pdf_link\<close>\<close>

definition target_texts :: "string list" where
  "target_texts = [''visualizar laudo'', ''baixar'', ''download'']"

text \<open>The filter \<open>href=True\<close>: the tag has an \<open>href\<close> attribute.\<close>

definition has_href :: "node \<Rightarrow> bool" where
  "has_href t = (attr t ''href'' \<noteq> None)"

definition text_matches :: "node \<Rightarrow> bool" where
  "text_matches link =
     (let link_text = lower (strip (get_text link))
      in list_ex (\<lambda>target. contains link_text target) target_texts)"

text \<open>The first loop over the links: the first link whose text matches.\<close>

fun text_links_loop :: "crawler \<Rightarrow> node list \<Rightarrow> string option" where
  "text_links_loop st [] = None"
| "text_links_loop st (link # rest) =
     (let href = attr_or link ''href'' ''''
      in if text_matches link then Some (absolutize st href) else text_links_loop st rest)"

text \<open>The second loop over the links: the first link to \<open>/get_laudo\<close>.\<close>

fun laudo_links_loop :: "crawler \<Rightarrow> node list \<Rightarrow> string option" where
  "laudo_links_loop st [] = None"
| "laudo_links_loop st (link # rest) =
     (let href = attr_or link ''href'' ''''
      in if contains href ''/get_laudo'' then Some (absolutize st href)
         else laudo_links_loop st rest)"

definition find_pdf_link :: "crawler \<Rightarrow> node \<Rightarrow> string option" where
  "find_pdf_link st soup =
     (case text_links_loop st (find_all_where soup ''a'' has_href) of
        Some pdf_url \<Rightarrow> Some pdf_url
      | None \<Rightarrow> laudo_links_loop st (find_all_where soup ''a'' has_href))"

definition get_pdf_link_body ::
  "'w env \<Rightarrow> crawler \<Rightarrow> 'w \<Rightarrow> (exn + string option) \<times> crawler \<times> 'w" where
  "get_pdf_link_body env st w =
     (case fetch_start env st w of
        (Inl e, w1) \<Rightarrow> (Inl e, st, w1)
      | (Inr response, w1) \<Rightarrow>
          (case BeautifulSoup env (resp_text response) of
             Inl e \<Rightarrow> (Inl e, st, w1)
           | Inr soup \<Rightarrow> (Inr (find_pdf_link st soup), st, w1)))"

definition get_pdf_link ::
  "'w env \<Rightarrow> crawler \<Rightarrow> 'w \<Rightarrow> (exn + string option) \<times> crawler \<times> 'w" where
  "get_pdf_link env st w =
     (case get_pdf_link_body env st w of
        (r, st', w') \<Rightarrow> (catch_request None r, st', w'))"

subsection \<open>\<open>download_pdf\<close>\<close>

text \<open>
  First recovery strategy of the html branch: the \<open>object\<close> tag with a base64 parameter.
  \<open>Some\<close> is the \<open>return\<close> inside the strategy, \<open>None\<close> is falling through to the next
  one; \<open>except Exception: pass\<close> turns an exception of the decoder into falling through.
\<close>

definition embedded_pdf :: "'w env \<Rightarrow> node \<Rightarrow> (bytes \<times> string) option" where
  "embedded_pdf env soup =
     (case find_where soup ''object'' (\<lambda>t. attr t ''type'' = Some ''application/pdf'') of
        None \<Rightarrow> None
      | Some pdf_object \<Rightarrow>
          (case find_where pdf_object ''param'' (\<lambda>t. attr t ''id'' = Some ''base64-param'') of
             None \<Rightarrow> None
           | Some base64_param \<Rightarrow>
               (let base64_data = attr_or base64_param ''value'' ''''
                in if truthy base64_data
                   then (case b64decode env base64_data of
                           Inl e \<Rightarrow> None
                         | Inr pdf_content \<Rightarrow>
                             if startswith pdf_content ''%PDF''
                             then Some (pdf_content, ''lab_results.pdf'')
                             else None)
                   else None)))"

text \<open>Second strategy: the \<open>iframe\<close> whose source is fetched.\<close>

definition iframe_pdf ::
  "'w env \<Rightarrow> crawler \<Rightarrow> 'w \<Rightarrow> node \<Rightarrow> (exn + (bytes \<times> string) option) \<times> 'w" where
  "iframe_pdf env st w soup =
     (case find_where soup ''iframe'' (\<lambda>t. attr t ''type'' = Some ''application/pdf'') of
        None \<Rightarrow> (Inr None, w)
      | Some pdf_iframe \<Rightarrow>
          if truthy_opt (attr pdf_iframe ''src'')
          then (case get_checked env w (absolutize st (attr_or pdf_iframe ''src'' '''')) of
                  (Inl e, w1) \<Rightarrow> (Inl e, w1)
                | (Inr iframe_response, w1) \<Rightarrow>
                    if startswith (resp_content iframe_response) ''%PDF''
                    then (Inr (Some (resp_content iframe_response, ''lab_results.pdf'')), w1)
                    else (Inr None, w1))
          else (Inr None, w))"

text \<open>Third strategy: the loop over the links of the page that mention \<open>pdf\<close>.\<close>

fun pdf_links_loop ::
  "'w env \<Rightarrow> crawler \<Rightarrow> 'w \<Rightarrow> node list \<Rightarrow> (exn + (bytes \<times> string) option) \<times> 'w" where
  "pdf_links_loop env st w [] = (Inr None, w)"
| "pdf_links_loop env st w (link # rest) =
     (let href = attr_or link ''href'' ''''
      in if endswith href ''.pdf'' \<or> contains (lower href) ''pdf''
         then (case get_checked env w (absolutize st href) of
                 (Inl e, w1) \<Rightarrow> (Inl e, w1)
               | (Inr pdf_response, w1) \<Rightarrow>
                   if startswith (resp_content pdf_response) ''%PDF''
                   then (Inr (Some (resp_content pdf_response, ''lab_results.pdf'')), w1)
                   else pdf_links_loop env st w1 rest)
         else pdf_links_loop env st w rest)"

text \<open>The html branch: the three strategies in order, then \<open>return None\<close>.\<close>

definition html_pdf ::
  "'w env \<Rightarrow> crawler \<Rightarrow> 'w \<Rightarrow> node \<Rightarrow> (exn + (bytes \<times> string) option) \<times> 'w" where
  "html_pdf env st w soup =
     (case embedded_pdf env soup of
        Some found \<Rightarrow> (Inr (Some found), w)
      | None \<Rightarrow>
          (case iframe_pdf env st w soup of
             (Inl e, w1) \<Rightarrow> (Inl e, w1)
           | (Inr (Some found), w1) \<Rightarrow> (Inr (Some found), w1)
           | (Inr None, w1) \<Rightarrow> pdf_links_loop env st w1 (find_all_where soup ''a'' has_href)))"

text \<open>The file name of a direct response, from \<open>filename = "lab_results.pdf"\<close> on.\<close>

definition quote_chars :: string where
  "quote_chars = [CHR 0x22, CHR 0x27]"

definition filename_from_header :: "string \<Rightarrow> string \<Rightarrow> string" where
  "filename_from_header content_disposition filename =
     (if contains content_disposition ''filename=''
      then (case split content_disposition ''filename='' of
              before # after # rest \<Rightarrow> strip_chars quote_chars after
            | _ \<Rightarrow> filename)
      else filename)"

definition filename_from_url :: "string \<Rightarrow> string \<Rightarrow> string" where
  "filename_from_url pdf_url filename =
     (if filename = ''lab_results.pdf'' \<and> truthy pdf_url
      then (case find (\<lambda>part. contains part ''.'' \<and> \<not> startswith part ''?'')
                   (rev (split pdf_url ''/'')) of
              None \<Rightarrow> filename
            | Some part \<Rightarrow> (case split part ''?'' of [] \<Rightarrow> filename | p # ps \<Rightarrow> p))
      else filename)"

definition derive_filename :: "response \<Rightarrow> string \<Rightarrow> string" where
  "derive_filename response pdf_url =
     (let filename = ''lab_results.pdf'';
          content_disposition = header_or_empty response ''content-disposition'';
          filename = filename_from_header content_disposition filename;
          filename = filename_from_url pdf_url filename
      in if \<not> endswith (lower filename) ''.pdf'' then filename @ ''.pdf'' else filename)"

text \<open>The end of \<open>download_pdf\<close>, reached by the branches that accept the response itself.\<close>

definition direct_pdf :: "response \<Rightarrow> string \<Rightarrow> (bytes \<times> string) option" where
  "direct_pdf response pdf_url =
     (if \<not> startswith (resp_content response) ''%PDF'' then None
      else Some (resp_content response, derive_filename response pdf_url))"

definition download_pdf_body ::
  "'w env \<Rightarrow> crawler \<Rightarrow> 'w \<Rightarrow> string \<Rightarrow> (exn + (bytes \<times> string) option) \<times> crawler \<times> 'w" where
  "download_pdf_body env st w pdf_url =
     (case get_checked env w pdf_url of
        (Inl e, w1) \<Rightarrow> (Inl e, st, w1)
      | (Inr response, w1) \<Rightarrow>
          (let content_type = lower (header_or_empty response ''content-type'')
           in if contains content_type ''pdf'' then (Inr (direct_pdf response pdf_url), st, w1)
              else if contains content_type ''html''
              then (case BeautifulSoup env (resp_text response) of
                      Inl e \<Rightarrow> (Inl e, st, w1)
                    | Inr soup \<Rightarrow>
                        (case html_pdf env st w1 soup of (r, w2) \<Rightarrow> (r, st, w2)))
              else if \<not> startswith (resp_content response) ''%PDF'' then (Inr None, st, w1)
              else (Inr (direct_pdf response pdf_url), st, w1)))"

definition download_pdf ::
  "'w env \<Rightarrow> crawler \<Rightarrow> 'w \<Rightarrow> string \<Rightarrow> (exn + (bytes \<times> string) option) \<times> crawler \<times> 'w" where
  "download_pdf env st w pdf_url =
     (case download_pdf_body env st w pdf_url of
        (r, st', w') \<Rightarrow> (catch_request None r, st', w'))"

section \<open>The notions of the specification\<close>

text \<open>
  A row is excluded when it has a header cell below it, has no data cell below it, or its
  text, lower-cased, contains \<open>visualizar laudo\<close> or \<open>assinatura\<close>. The qualifying rows of
  a page are its other rows, in document order.
\<close>

definition excluded_row :: "node \<Rightarrow> bool" where
  "excluded_row row =
     ((\<exists>x \<in> set (descendants row). is_tag x \<and> name x = ''th'') \<or>
      \<not> (\<exists>x \<in> set (descendants row). is_tag x \<and> name x = ''td'') \<or>
      contains (lower (get_text row)) ''visualizar laudo'' \<or>
      contains (lower (get_text row)) ''assinatura'')"

definition qualifying_rows :: "node \<Rightarrow> node list" where
  "qualifying_rows soup = filter (\<lambda>row. \<not> excluded_row row) (find_all soup ''tr'')"

text \<open>The anchors that \<open>get_pdf_link\<close> scans, and the test of its second pass.\<close>

definition anchors :: "node \<Rightarrow> node list" where
  "anchors soup = find_all_where soup ''a'' has_href"

definition laudo_matches :: "node \<Rightarrow> bool" where
  "laudo_matches link = contains (attr_or link ''href'' '''') ''/get_laudo''"

text \<open>
  The candidate payloads of the html branch of \<open>download_pdf\<close>, in the order in which the
  three recovery strategies come to them: the decoded parameter of the \<open>object\<close> tag (none
  when the decoder raises, since that exception is swallowed), the body fetched from the
  \<open>iframe\<close>, the bodies fetched from the links that mention \<open>pdf\<close>. A request made for a
  candidate can raise instead; nothing follows an exception.
\<close>

definition embedded_candidates :: "'w env \<Rightarrow> node \<Rightarrow> (exn + bytes) list" where
  "embedded_candidates env soup =
     (case find_where soup ''object'' (\<lambda>t. attr t ''type'' = Some ''application/pdf'') of
        None \<Rightarrow> []
      | Some pdf_object \<Rightarrow>
          (case find_where pdf_object ''param'' (\<lambda>t. attr t ''id'' = Some ''base64-param'') of
             None \<Rightarrow> []
           | Some base64_param \<Rightarrow>
               if truthy (attr_or base64_param ''value'' '''')
               then (case b64decode env (attr_or base64_param ''value'' '''') of
                       Inl e \<Rightarrow> []
                     | Inr c \<Rightarrow> [Inr c])
               else []))"

definition iframe_candidates ::
  "'w env \<Rightarrow> crawler \<Rightarrow> 'w \<Rightarrow> node \<Rightarrow> (exn + bytes) list \<times> 'w" where
  "iframe_candidates env st w soup =
     (case find_where soup ''iframe'' (\<lambda>t. attr t ''type'' = Some ''application/pdf'') of
        None \<Rightarrow> ([], w)
      | Some pdf_iframe \<Rightarrow>
          if truthy_opt (attr pdf_iframe ''src'')
          then (case get_checked env w (absolutize st (attr_or pdf_iframe ''src'' '''')) of
                  (Inl e, w1) \<Rightarrow> ([Inl e], w1)
                | (Inr r, w1) \<Rightarrow> ([Inr (resp_content r)], w1))
          else ([], w))"

fun link_candidates :: "'w env \<Rightarrow> crawler \<Rightarrow> 'w \<Rightarrow> node list \<Rightarrow> (exn + bytes) list" where
  "link_candidates env st w [] = []"
| "link_candidates env st w (link # rest) =
     (if endswith (attr_or link ''href'' '''') ''.pdf'' \<or>
         contains (lower (attr_or link ''href'' '''')) ''pdf''
      then (case get_checked env w (absolutize st (attr_or link ''href'' '''')) of
              (Inl e, w1) \<Rightarrow> [Inl e]
            | (Inr r, w1) \<Rightarrow> Inr (resp_content r) # link_candidates env st w1 rest)
      else link_candidates env st w rest)"

definition html_candidates :: "'w env \<Rightarrow> crawler \<Rightarrow> 'w \<Rightarrow> node \<Rightarrow> (exn + bytes) list" where
  "html_candidates env st w soup =
     embedded_candidates env soup @
     (case iframe_candidates env st w soup of
        (xs, w1) \<Rightarrow>
          if list_ex isl xs then xs
          else xs @ link_candidates env st w1 (find_all_where soup ''a'' has_href))"

text \<open>
  The first candidate that starts with \<open>%PDF\<close> is returned, under the name
  \<open>lab_results.pdf\<close>; a candidate that does not is passed over; an exception ends the
  search.
\<close>

fun first_accepted :: "(exn + bytes) list \<Rightarrow> exn + (bytes \<times> string) option" where
  "first_accepted [] = Inr None"
| "first_accepted (Inl e # xs) = Inl e"
| "first_accepted (Inr c # xs) =
     (if startswith c ''%PDF'' then Inr (Some (c, ''lab_results.pdf'')) else first_accepted xs)"


section \<open>Sample documents and portals\<close>

definition cell_class_disponivel :: node where
  "cell_class_disponivel = Tag ''td'' [] [''disponivel''] [NavigableString ''x'']"

definition row_cell_class_disponivel :: node where
  "row_cell_class_disponivel = Tag ''tr'' [] [] [cell_class_disponivel]"

definition row_cell_text_pronto :: node where
  "row_cell_text_pronto =
     Tag ''tr'' [] [] [Tag ''td'' [] [] [NavigableString '' Pronto '']]"

definition document :: "node list \<Rightarrow> node" where
  "document xs = Tag ''[document]'' [] [] xs"

text \<open>A response with status 200 and no headers, and one declared as a PDF.\<close>

definition ok_response :: "string \<Rightarrow> string \<Rightarrow> response" where
  "ok_response u body =
     \<lparr> status_code = 200, resp_headers = (\<lambda>k. None), resp_text = body,
       resp_content = body, resp_url = u \<rparr>"

definition pdf_response :: "string \<Rightarrow> bytes \<Rightarrow> response" where
  "pdf_response u body =
     \<lparr> status_code = 200,
       resp_headers = (\<lambda>k. if k = ''content-type'' then Some ''application/pdf'' else None),
       resp_text = body, resp_content = body, resp_url = u \<rparr>"

text \<open>
  A portal without state: every GET is answered by \<open>on_get\<close>, every POST by \<open>on_post\<close>, and
  the parser is the table \<open>parse\<close>; the decoder rejects every input.
\<close>

definition fixed_env ::
  "(string \<Rightarrow> exn + response) \<Rightarrow> (string \<Rightarrow> exn + response) \<Rightarrow> (string \<Rightarrow> exn + node)
     \<Rightarrow> unit env" where
  "fixed_env on_get on_post parse =
     \<lparr> session_get = (\<lambda>w u. (on_get u, w)), session_post = (\<lambda>w u d. (on_post u, w)),
       BeautifulSoup = parse, b64decode = (\<lambda>s. Inl (OtherException ''binascii.Error'')) \<rparr>"

text \<open>A login page with an empty form; the portal answers the login with the body
  \<open>entrar\<close>.\<close>

definition form_parse :: "string \<Rightarrow> exn + node" where
  "form_parse t =
     Inr (if t = ''<form></form>'' then document [Tag ''form'' [] [] []] else document [])"

definition entrar_env :: "unit env" where
  "entrar_env =
     fixed_env (\<lambda>u. Inr (ok_response u ''<form></form>''))
       (\<lambda>u. Inr (ok_response u ''entrar'')) form_parse"

text \<open>A portal that is down, and one that answers every request with an empty page.\<close>

definition down_env :: "unit env" where
  "down_env = fixed_env (\<lambda>u. Inl RequestException) (\<lambda>u. Inl RequestException) (\<lambda>t. Inr (document []))"

definition empty_env :: "unit env" where
  "empty_env =
     fixed_env (\<lambda>u. Inr (ok_response u [])) (\<lambda>u. Inr (ok_response u [])) (\<lambda>t. Inr (document []))"

text \<open>A results page with a header row, a signature row and one ready row.\<close>

definition header_row :: node where
  "header_row = Tag ''tr'' [] [] [Tag ''th'' [] [] [NavigableString ''Exame'']]"

definition signature_row :: node where
  "signature_row = Tag ''tr'' [] [] [Tag ''td'' [] [] [NavigableString ''Assinatura'']]"

definition results_page :: node where
  "results_page =
     document [Tag ''table'' [] [] [header_row, row_cell_text_pronto, signature_row]]"

definition results_env :: "unit env" where
  "results_env =
     fixed_env (\<lambda>u. Inr (ok_response u ''<table>'')) (\<lambda>u. Inl RequestException) (\<lambda>t. Inr results_page)"




text \<open>A page with a link to \<open>/get_laudo\<close> followed by a link with the text \<open>Baixar\<close>.\<close>

definition laudo_link :: node where
  "laudo_link = Tag ''a'' [(''href'', ''/get_laudo?id=1'')] [] [NavigableString ''Laudo'']"

definition baixar_link :: node where
  "baixar_link = Tag ''a'' [(''href'', ''/download_pdf'')] [] [NavigableString ''Baixar'']"

definition links_page :: node where
  "links_page = document [laudo_link, baixar_link]"

definition links_env :: "unit env" where
  "links_env =
     fixed_env (\<lambda>u. Inr (ok_response u ''<a>'')) (\<lambda>u. Inl RequestException) (\<lambda>t. Inr links_page)"

text \<open>A portal that serves a PDF, and one that declares a PDF and serves html.\<close>

definition pdf_env :: "unit env" where
  "pdf_env =
     fixed_env (\<lambda>u. Inr (pdf_response u ''%PDF-1.4'')) (\<lambda>u. Inl RequestException) (\<lambda>t. Inr (document []))"

definition fake_pdf_env :: "unit env" where
  "fake_pdf_env =
     fixed_env (\<lambda>u. Inr (pdf_response u ''<html>'')) (\<lambda>u. Inl RequestException) (\<lambda>t. Inr (document []))"



text \<open>
  A page declared as html with an \<open>iframe\<close> and a link to a PDF; the source of the
  \<open>iframe\<close> is not a PDF, and the link serves the body \<open>linked\<close>.
\<close>

definition html_response :: "string \<Rightarrow> string \<Rightarrow> response" where
  "html_response u body =
     \<lparr> status_code = 200,
       resp_headers = (\<lambda>k. if k = ''content-type'' then Some ''text/html'' else None),
       resp_text = body, resp_content = body, resp_url = u \<rparr>"

definition frame_page :: node where
  "frame_page =
     document [Tag ''iframe'' [(''type'', ''application/pdf''), (''src'', ''/frame'')] [] [],
               Tag ''a'' [(''href'', ''/laudo.pdf'')] [] [NavigableString ''Laudo'']]"

definition frame_env :: "bytes \<Rightarrow> unit env" where
  "frame_env linked =
     fixed_env
       (\<lambda>u. Inr (if u = ''https://lablaudo.com.br/laudo.pdf'' then ok_response u linked
                  else if u = ''https://lablaudo.com.br/frame'' then ok_response u ''<p>''
                  else html_response u ''<iframe>''))
       (\<lambda>u. Inl RequestException) (\<lambda>t. Inr frame_page)"

section \<open>Facts about the string primitives\<close>

lemma contains_iff: "contains s sub \<longleftrightarrow> (\<exists>ps ss. s = ps @ sub @ ss)"
proof (induction s)
  case Nil
  then show ?case by auto
next
  case (Cons c cs)
  have "(\<exists>ps ss. c # cs = ps @ sub @ ss) \<longleftrightarrow>
        (\<exists>ss. c # cs = sub @ ss) \<or> (\<exists>ps ss. cs = ps @ sub @ ss)"
  proof
    assume "\<exists>ps ss. c # cs = ps @ sub @ ss"
    then obtain ps ss where eq: "c # cs = ps @ sub @ ss" by blast
    show "(\<exists>ss. c # cs = sub @ ss) \<or> (\<exists>ps ss. cs = ps @ sub @ ss)"
    proof (cases ps)
      case Nil
      with eq show ?thesis by auto
    next
      case (Cons p ps')
      with eq have "cs = ps' @ sub @ ss" by simp
      then show ?thesis by blast
    qed
  next
    assume "(\<exists>ss. c # cs = sub @ ss) \<or> (\<exists>ps ss. cs = ps @ sub @ ss)"
    then show "\<exists>ps ss. c # cs = ps @ sub @ ss"
    proof
      assume "\<exists>ss. c # cs = sub @ ss"
      then obtain ss where "c # cs = [] @ sub @ ss" by auto
      then show ?thesis by blast
    next
      assume "\<exists>ps ss. cs = ps @ sub @ ss"
      then obtain ps ss where "c # cs = (c # ps) @ sub @ ss" by auto
      then show ?thesis by blast
    qed
  qed
  moreover have "startswith (c # cs) sub \<longleftrightarrow> (\<exists>ss. c # cs = sub @ ss)"
    unfolding startswith_def
    by (metis append_eq_conv_conj append_take_drop_id)
  ultimately show ?case using Cons.IH by simp
qed

lemma lower_char_idem: "lower_char (lower_char c) = lower_char c"
proof -
  have "of_char (char_of (of_char c + 32 :: nat)) = ((of_char c + 32) mod 256 :: nat)"
    by (rule of_char_of)
  then show ?thesis
    unfolding lower_char_def Let_def by auto
qed

lemma lower_idem: "lower (lower s) = lower s"
  by (simp add: lower_def lower_char_idem)

section \<open>Readiness of a row\<close>

lemma cells_loop_ex: "cells_loop cells = list_ex cell_is_green cells"
  by (induction cells) auto

lemma cell_is_green_indicated: "cell_is_green cell = cell_indicated cell"
  unfolding cell_is_green_def cell_indicated_def style_matches_def matches_any_def
    style_tokens_def cell_class_tokens_def cell_text_words_def Let_def
  by auto

lemma list_ex_cong_all: "(\<And>x. P x = Q x) \<Longrightarrow> list_ex P xs = list_ex Q xs"
  by (induction xs) auto

text \<open>
  C5 (as amended). A row is judged green exactly when an indicator matches, as a substring
  of the lower-cased value, in one of these places: the row's \<open>style\<close> (\<open>green\<close>,
  \<open>#00ff00\<close>, \<open>#0f0\<close>, \<open>rgb(0,255,0)\<close>, or \<open>background-color:green\<close> once spaces are
  removed), the row's \<open>class\<close> (\<open>green\<close>, \<open>success\<close>, \<open>ready\<close>, \<open>disponivel\<close>), the row's
  \<open>bgcolor\<close> (\<open>#8ff08f\<close>, \<open>green\<close>), or, for some \<open>td\<close> below the row, the cell's \<open>style\<close>
  (the same tokens as the row's), the cell's \<open>class\<close> (\<open>green\<close>, \<open>success\<close>, \<open>ready\<close>
  only) or the cell's stripped text (\<open>disponivel\<close>, \<open>pronto\<close>, \<open>liberado\<close>, \<open>concluido\<close>).
\<close>

theorem is_row_green_indicated: "is_row_green row \<longleftrightarrow> row_indicated row"
proof -
  have cells: "cells_loop (find_all row ''td'') = list_ex cell_indicated (find_all row ''td'')"
    unfolding cells_loop_ex by (rule list_ex_cong_all) (rule cell_is_green_indicated)
  show ?thesis
    unfolding is_row_green_def row_indicated_def style_matches_def matches_any_def
      style_tokens_def row_class_tokens_def row_bgcolor_tokens_def Let_def cells lower_idem
    by auto
qed

theorem is_row_green_indicated_witness:
  "is_row_green row_cell_text_pronto \<and> row_indicated row_cell_text_pronto"
proof -
  have "row_indicated row_cell_text_pronto"
    unfolding row_cell_text_pronto_def by code_simp
  then show ?thesis
    using is_row_green_indicated [of row_cell_text_pronto] by simp
qed

text \<open>
  C5 as stated fails: the class token \<open>disponivel\<close> in the \<open>class\<close> attribute of a cell
  does not make the row green.
\<close>

theorem cell_class_disponivel_not_green:
  "cell_class_disponivel \<in> set (find_all row_cell_class_disponivel ''td'') \<and>
   contains (lower (join_space (classes cell_class_disponivel))) ''disponivel'' \<and>
   \<not> is_row_green row_cell_class_disponivel"
  unfolding row_cell_class_disponivel_def cell_class_disponivel_def
  by code_simp


section \<open>Selection of the rows and the verdict of \<open>check_results\<close>\<close>

lemma rows_loop_filter: "rows_loop rows acc = acc @ filter (\<lambda>r. \<not> row_skipped r) rows"
  by (induction rows arbitrary: acc) auto

lemma green_loop_all: "green_loop rows = list_all is_row_green rows"
  by (induction rows) auto

lemma find_where_None_iff: "find_where t nm P = None \<longleftrightarrow> find_all_where t nm P = []"
  by (simp add: find_where_def split: list.splits)

lemma find_tag_None_iff:
  "find_tag t nm = None \<longleftrightarrow> \<not> (\<exists>x \<in> set (descendants t). is_tag x \<and> name x = nm)"
  by (simp add: find_tag_def find_where_None_iff find_all_where_def filter_empty_conv)

lemma evaluate_rows_eq:
  "evaluate_rows soup =
     (filter (\<lambda>r. \<not> row_skipped r) (find_all soup ''tr'') \<noteq> [] \<and>
      list_all is_row_green (filter (\<lambda>r. \<not> row_skipped r) (find_all soup ''tr'')))"
  unfolding evaluate_rows_def Let_def rows_loop_filter green_loop_all
  by auto

lemma row_skipped_excluded: "row_skipped row = excluded_row row"
  by (simp add: row_skipped_def excluded_row_def find_tag_None_iff)

lemma rows_loop_qualifying: "rows_loop (find_all soup ''tr'') [] = qualifying_rows soup"
  by (simp add: rows_loop_filter qualifying_rows_def row_skipped_excluded)

lemma evaluate_rows_qualifying:
  "evaluate_rows soup =
     (qualifying_rows soup \<noteq> [] \<and> (\<forall>row \<in> set (qualifying_rows soup). is_row_green row))"
  by (simp add: evaluate_rows_eq qualifying_rows_def row_skipped_excluded list_all_iff)

text \<open>
  C4. The rows that \<open>check_results\<close> hands to the greenness loop are exactly the rows of the
  page that are not excluded, in document order: a row is left out exactly when it has a
  header cell, has no data cell, or its text contains \<open>visualizar laudo\<close> or
  \<open>assinatura\<close>. The verdict is computed from these rows and from no other: it is true
  exactly when there is at least one and each of them is green.
\<close>

theorem results_rows_exact:
  "rows_loop (find_all soup ''tr'') [] = qualifying_rows soup \<and>
   (row \<in> set (rows_loop (find_all soup ''tr'') []) \<longleftrightarrow>
      row \<in> set (find_all soup ''tr'') \<and> \<not> excluded_row row) \<and>
   evaluate_rows soup =
     (rows_loop (find_all soup ''tr'') [] \<noteq> [] \<and>
      (\<forall>r \<in> set (rows_loop (find_all soup ''tr'') []). is_row_green r))"
  unfolding rows_loop_qualifying evaluate_rows_qualifying
  by (simp add: qualifying_rows_def)

theorem results_rows_exact_witness:
  "rows_loop (find_all results_page ''tr'') [] = [row_cell_text_pronto] \<and>
   excluded_row header_row \<and> excluded_row signature_row \<and>
   \<not> excluded_row row_cell_text_pronto \<and> evaluate_rows results_page"
proof -
  have q: "qualifying_rows results_page = [row_cell_text_pronto]"
    by code_simp
  have e: "excluded_row header_row" "excluded_row signature_row"
    "\<not> excluded_row row_cell_text_pronto"
    by code_simp+
  have g: "is_row_green row_cell_text_pronto"
    by code_simp
  from results_rows_exact [of results_page row_cell_text_pronto] q e g
  show ?thesis by simp
qed

text \<open>
  C1. Whenever \<open>check_results\<close> obtains a results page, it returns true if and only if the
  page has at least one qualifying row and every qualifying row is green; so it returns
  false when no qualifying row remains and when some qualifying row is not green.
\<close>

theorem check_results_verdict:
  assumes "locate_results_page env st w = (Inr soup, w')"
  shows "fst (check_results env st w) =
           Inr (qualifying_rows soup \<noteq> [] \<and>
                (\<forall>row \<in> set (qualifying_rows soup). is_row_green row))"
  using assms
  by (simp add: check_results_def check_results_body_def catch_request_def
      evaluate_rows_qualifying)

theorem check_results_verdict_witness:
  "locate_results_page results_env init () = (Inr results_page, ()) \<and>
   qualifying_rows results_page = [row_cell_text_pronto] \<and>
   fst (check_results results_env init ()) = Inr True"
proof -
  have h: "locate_results_page results_env init () = (Inr results_page, ())"
    by code_simp
  have q: "qualifying_rows results_page = [row_cell_text_pronto]"
    by code_simp
  have g: "is_row_green row_cell_text_pronto"
    by code_simp
  from check_results_verdict [OF h] q g show ?thesis
    using h by simp
qed

section \<open>The outcomes of the operations\<close>




lemma catch_request_Inr: "catch_request d (Inr v) = Inr v"
  by (simp add: catch_request_def)


subsection \<open>\<open>login\<close>\<close>





subsection \<open>\<open>check_results\<close> and \<open>get_pdf_link\<close>\<close>







subsection \<open>The candidates of the html branch\<close>

lemma first_accepted_append:
  "first_accepted (xs @ ys) =
     (case first_accepted xs of Inr None \<Rightarrow> first_accepted ys | r \<Rightarrow> r)"
  by (induction xs rule: first_accepted.induct) simp_all

lemma first_accepted_pdf:
  "first_accepted xs = Inr (Some (c, f)) \<Longrightarrow>
     startswith c ''%PDF'' \<and> f = ''lab_results.pdf'' \<and> Inr c \<in> set xs"
  by (induction xs rule: first_accepted.induct) (auto split: if_splits)


lemma first_accepted_rejected:
  "\<forall>x \<in> set xs. \<exists>c. x = Inr c \<and> \<not> startswith c ''%PDF'' \<Longrightarrow> first_accepted xs = Inr None"
proof (induction xs)
  case Nil
  show ?case by simp
next
  case (Cons x xs)
  then obtain c where "x = Inr c" "\<not> startswith c ''%PDF''" by auto
  with Cons show ?case by simp
qed

lemma embedded_candidates_accepted:
  "first_accepted (embedded_candidates env soup) = Inr (embedded_pdf env soup)"
proof (cases "find_where soup ''object'' (\<lambda>t. attr t ''type'' = Some ''application/pdf'')")
  case None
  then show ?thesis by (simp add: embedded_candidates_def embedded_pdf_def)
next
  case obj: (Some pdf_object)
  show ?thesis
  proof (cases "find_where pdf_object ''param'' (\<lambda>t. attr t ''id'' = Some ''base64-param'')")
    case None
    with obj show ?thesis by (simp add: embedded_candidates_def embedded_pdf_def)
  next
    case (Some base64_param)
    show ?thesis
    proof (cases "b64decode env (attr_or base64_param ''value'' '''')")
      case (Inl e)
      with obj Some show ?thesis
        by (simp add: embedded_candidates_def embedded_pdf_def Let_def)
    next
      case (Inr c)
      with obj Some show ?thesis
        by (simp add: embedded_candidates_def embedded_pdf_def Let_def)
    qed
  qed
qed



lemma iframe_candidates_accepted:
  "iframe_pdf env st w soup =
     (first_accepted (fst (iframe_candidates env st w soup)),
      snd (iframe_candidates env st w soup))"
  unfolding iframe_candidates_def iframe_pdf_def
  by (simp split: option.splits sum.splits prod.splits)

lemma iframe_candidates_shape:
  "(\<exists>w1. iframe_candidates env st w soup = ([], w1)) \<or>
   (\<exists>e w1. iframe_candidates env st w soup = ([Inl e], w1)) \<or>
   (\<exists>c w1. iframe_candidates env st w soup = ([Inr c], w1))"
  unfolding iframe_candidates_def
  by (simp split: option.splits sum.splits prod.splits)


lemma link_candidates_accepted:
  "fst (pdf_links_loop env st w links) = first_accepted (link_candidates env st w links)"
proof (induction links arbitrary: w)
  case Nil
  show ?case by simp
next
  case (Cons link rest)
  show ?case
    by (simp add: Let_def Cons.IH split: prod.splits sum.splits)
qed


lemma html_candidates_accepted:
  "fst (html_pdf env st w soup) = first_accepted (html_candidates env st w soup)"
proof -
  let ?links = "find_all_where soup ''a'' has_href"
  have e: "first_accepted (embedded_candidates env soup) = Inr (embedded_pdf env soup)"
    by (rule embedded_candidates_accepted)
  show ?thesis
  proof (cases "embedded_pdf env soup")
    case (Some found)
    then show ?thesis
      by (simp add: html_pdf_def html_candidates_def first_accepted_append e)
  next
    case None
    from iframe_candidates_shape [of env st w soup] show ?thesis
    proof (elim disjE exE)
      fix w1 assume i: "iframe_candidates env st w soup = ([], w1)"
      then have "iframe_pdf env st w soup = (Inr None, w1)"
        by (simp add: iframe_candidates_accepted)
      with None i show ?thesis
        by (simp add: html_pdf_def html_candidates_def first_accepted_append e
            link_candidates_accepted)
    next
      fix x w1 assume i: "iframe_candidates env st w soup = ([Inl x], w1)"
      then have "iframe_pdf env st w soup = (Inl x, w1)"
        by (simp add: iframe_candidates_accepted)
      with None i show ?thesis
        by (simp add: html_pdf_def html_candidates_def first_accepted_append e)
    next
      fix c w1 assume i: "iframe_candidates env st w soup = ([Inr c], w1)"
      then have p: "iframe_pdf env st w soup
                      = (if startswith c ''%PDF'' then Inr (Some (c, ''lab_results.pdf''))
                         else Inr None, w1)"
        by (simp add: iframe_candidates_accepted)
      show ?thesis
      proof (cases "startswith c ''%PDF''")
        case True
        with None i p show ?thesis
          by (simp add: html_pdf_def html_candidates_def first_accepted_append e)
      next
        case False
        with None i p show ?thesis
          by (simp add: html_pdf_def html_candidates_def first_accepted_append e
              link_candidates_accepted)
      qed
    qed
  qed
qed


subsection \<open>\<open>download_pdf\<close>\<close>

lemma startswith_pdf: "startswith c ''%PDF'' = (take 4 c = ''%PDF'')"
proof -
  have "length ''%PDF'' = 4" by simp
  then show ?thesis unfolding startswith_def by metis
qed

text \<open>The result of \<open>download_pdf\<close> on each branch.\<close>

lemma download_pdf_failed:
  assumes "get_checked env w u = (Inl e, w1)"
  shows "download_pdf env st w u = (catch_request None (Inl e), st, w1)"
  using assms by (simp add: download_pdf_def download_pdf_body_def)

lemma download_pdf_direct:
  assumes "get_checked env w u = (Inr r, w1)"
    and "contains (lower (header_or_empty r ''content-type'')) ''pdf'' \<or>
         \<not> contains (lower (header_or_empty r ''content-type'')) ''html''"
  shows "download_pdf env st w u = (Inr (direct_pdf r u), st, w1)"
  using assms
  by (auto simp: download_pdf_def download_pdf_body_def Let_def catch_request_Inr
      direct_pdf_def)

lemma download_pdf_rejected_markup:
  assumes "get_checked env w u = (Inr r, w1)"
    and "\<not> contains (lower (header_or_empty r ''content-type'')) ''pdf''"
    and "contains (lower (header_or_empty r ''content-type'')) ''html''"
    and "BeautifulSoup env (resp_text r) = Inl e"
  shows "download_pdf env st w u = (catch_request None (Inl e), st, w1)"
  using assms by (simp add: download_pdf_def download_pdf_body_def Let_def)

lemma download_pdf_html:
  assumes "get_checked env w u = (Inr r, w1)"
    and "\<not> contains (lower (header_or_empty r ''content-type'')) ''pdf''"
    and "contains (lower (header_or_empty r ''content-type'')) ''html''"
    and "BeautifulSoup env (resp_text r) = Inr soup"
  shows "fst (download_pdf env st w u)
           = catch_request None (first_accepted (html_candidates env st w1 soup))"
    and "fst (snd (download_pdf env st w u)) = st"
proof -
  obtain x w2 where h: "html_pdf env st w1 soup = (x, w2)"
    by (cases "html_pdf env st w1 soup")
  with html_candidates_accepted [of env st w1 soup]
  have x: "x = first_accepted (html_candidates env st w1 soup)" by simp
  from assms h have d: "download_pdf env st w u = (catch_request None x, st, w2)"
    by (simp add: download_pdf_def download_pdf_body_def Let_def)
  show "fst (download_pdf env st w u)
           = catch_request None (first_accepted (html_candidates env st w1 soup))"
    using d x by simp
  show "fst (snd (download_pdf env st w u)) = st"
    using d by simp
qed

text \<open>The branches cover every call.\<close>

lemma download_pdf_branches:
  obtains (failed) e w1 where "get_checked env w u = (Inl e, w1)"
  | (direct) r w1 where "get_checked env w u = (Inr r, w1)"
      "contains (lower (header_or_empty r ''content-type'')) ''pdf'' \<or>
       \<not> contains (lower (header_or_empty r ''content-type'')) ''html''"
  | (markup) r w1 e where "get_checked env w u = (Inr r, w1)"
      "\<not> contains (lower (header_or_empty r ''content-type'')) ''pdf''"
      "contains (lower (header_or_empty r ''content-type'')) ''html''"
      "BeautifulSoup env (resp_text r) = Inl e"
  | (html) r w1 soup where "get_checked env w u = (Inr r, w1)"
      "\<not> contains (lower (header_or_empty r ''content-type'')) ''pdf''"
      "contains (lower (header_or_empty r ''content-type'')) ''html''"
      "BeautifulSoup env (resp_text r) = Inr soup"
proof -
  obtain x w1 where g: "get_checked env w u = (x, w1)" by (cases "get_checked env w u")
  show ?thesis
  proof (cases x)
    case (Inl e)
    with g failed show ?thesis by simp
  next
    case (Inr r)
    show ?thesis
    proof (cases "contains (lower (header_or_empty r ''content-type'')) ''pdf'' \<or>
                  \<not> contains (lower (header_or_empty r ''content-type'')) ''html''")
      case True
      with g Inr direct show ?thesis by simp
    next
      case False
      show ?thesis
      proof (cases "BeautifulSoup env (resp_text r)")
        case (Inl e)
        with g \<open>x = Inr r\<close> False markup show ?thesis by simp
      next
        case (Inr soup)
        with g \<open>x = Inr r\<close> False html show ?thesis by simp
      qed
    qed
  qed
qed


lemma download_pdf_payload:
  assumes "fst (download_pdf env st w u) = Inr (Some (c, f))"
  shows "startswith c ''%PDF''"
proof (cases rule: download_pdf_branches [of env w u])
  case (failed e w1)
  with assms show ?thesis
    by (cases e) (simp_all add: download_pdf_failed catch_request_def)
next
  case (direct r w1)
  with assms show ?thesis
    by (auto simp: download_pdf_direct direct_pdf_def split: if_splits)
next
  case (markup r w1 e)
  with assms show ?thesis
    by (cases e) (simp_all add: download_pdf_rejected_markup catch_request_def)
next
  case (html r w1 soup)
  let ?x = "first_accepted (html_candidates env st w1 soup)"
  from html assms have c: "catch_request None ?x = Inr (Some (c, f))"
    by (simp add: download_pdf_html(1))
  have "?x = Inr (Some (c, f))"
  proof (cases ?x)
    case (Inl e)
    with c show ?thesis by (cases e) (simp_all add: catch_request_def)
  next
    case (Inr v)
    with c show ?thesis by (simp add: catch_request_Inr)
  qed
  then show ?thesis by (simp add: first_accepted_pdf)
qed


section \<open>What reaches the caller\<close>




section \<open>The remembered results URL\<close>



section \<open>Calls on a client that never logged in\<close>

lemma absolutize_results_url: "absolutize (st\<lparr>results_url := x\<rparr>) href = absolutize st href"
  by (simp add: absolutize_def)

lemma iframe_pdf_results_url:
  "iframe_pdf env (st\<lparr>results_url := x\<rparr>) w soup = iframe_pdf env st w soup"
  unfolding iframe_pdf_def absolutize_results_url by (rule refl)

lemma pdf_links_loop_results_url:
  "pdf_links_loop env (st\<lparr>results_url := x\<rparr>) w links = pdf_links_loop env st w links"
proof (induction links arbitrary: w)
  case Nil
  show ?case by simp
next
  case (Cons link rest)
  show ?case
    unfolding pdf_links_loop.simps absolutize_results_url Cons.IH by (rule refl)
qed

lemma html_pdf_results_url:
  "html_pdf env (st\<lparr>results_url := x\<rparr>) w soup = html_pdf env st w soup"
  unfolding html_pdf_def iframe_pdf_results_url pdf_links_loop_results_url by (rule refl)

lemma download_pdf_results_url:
  "fst (download_pdf env (st\<lparr>results_url := x\<rparr>) w u) = fst (download_pdf env st w u)"
  unfolding download_pdf_def download_pdf_body_def html_pdf_results_url Let_def
  by (simp split: prod.splits sum.splits)

lemma find_pdf_link_results_url:
  "find_pdf_link (st\<lparr>results_url := x\<rparr>) soup = find_pdf_link st soup"
proof -
  have t: "text_links_loop (st\<lparr>results_url := x\<rparr>) links = text_links_loop st links" for links
    by (induction links) (simp_all add: Let_def absolutize_results_url)
  have l: "laudo_links_loop (st\<lparr>results_url := x\<rparr>) links = laudo_links_loop st links" for links
    by (induction links) (simp_all add: Let_def absolutize_results_url)
  show ?thesis unfolding find_pdf_link_def t l by (rule refl)
qed

text \<open>
  C9 as stated fails: on a client that never logged in, \<open>check_results\<close> against a portal
  whose pages show no table returns false like any other negative answer; nothing marks
  the call as a failure.
\<close>

theorem unauthenticated_check_returns_false:
  "results_url init = None \<and> check_results empty_env init () = (Inr False, init, ())"
  by code_simp

text \<open>
  C9 (as amended). On a client on which no login has succeeded, \<open>results_url\<close> is unset, and
  the later calls are not refused. \<open>check_results\<close> and \<open>get_pdf_link\<close> fetch the login URL
  in place of the results URL: when that request fails with \<open>RequestException\<close> they return
  the ordinary false and \<open>None\<close>; otherwise \<open>get_pdf_link\<close> searches the login page for the
  link, as it would on a client whose results URL is the login URL, and \<open>check_results\<close>
  judges the rows of the login page or, when that page has a results link, of the page
  behind the first such link. The result of \<open>download_pdf\<close> does not depend on
  \<open>results_url\<close>.
\<close>

theorem unauthenticated_calls_proceed:
  assumes "results_url st = None"
  shows "(get_checked env w (login_url st) = (Inl RequestException, w1) \<longrightarrow>
            check_results env st w = (Inr False, st, w1) \<and>
            get_pdf_link env st w = (Inr None, st, w1)) \<and>
         (get_checked env w (login_url st) = (Inr response, w1) \<and>
          BeautifulSoup env (resp_text response) = Inr soup \<longrightarrow>
            get_pdf_link env st w = (Inr (find_pdf_link st soup), st, w1)) \<and>
         (get_checked env w (login_url st) = (Inr response, w1) \<and>
          BeautifulSoup env (resp_text response) = Inr soup \<and>
          find_where soup ''a'' results_link_matches = None \<longrightarrow>
            check_results env st w = (Inr (evaluate_rows soup), st, w1)) \<and>
         (get_checked env w (login_url st) = (Inr response, w1) \<and>
          BeautifulSoup env (resp_text response) = Inr soup \<and>
          find_where soup ''a'' results_link_matches = Some link \<and>
          get_checked env w1 (absolutize st (attr_or link ''href'' '''')) = (Inr response2, w2) \<and>
          BeautifulSoup env (resp_text response2) = Inr soup2 \<longrightarrow>
            check_results env st w = (Inr (evaluate_rows soup2), st, w2)) \<and>
         (login_url st \<noteq> [] \<longrightarrow>
            fst (get_pdf_link env st w)
              = fst (get_pdf_link env (st\<lparr>results_url := Some (login_url st)\<rparr>) w)) \<and>
         fst (download_pdf env (st\<lparr>results_url := x\<rparr>) w pdf_url)
           = fst (download_pdf env st w pdf_url)"
proof (intro conjI impI)
  have f: "fetch_start env st w = get_checked env w (login_url st)"
    using assms by (simp add: fetch_start_def)
  have n: "\<not> truthy_opt (results_url st)"
    using assms by (simp add: truthy_opt_def)
  {
    assume g: "get_checked env w (login_url st) = (Inl RequestException, w1)"
    show "check_results env st w = (Inr False, st, w1)"
      using g f
      by (simp add: check_results_def check_results_body_def locate_results_page_def
          catch_request_def)
    show "get_pdf_link env st w = (Inr None, st, w1)"
      using g f by (simp add: get_pdf_link_def get_pdf_link_body_def catch_request_def)
  }
  {
    assume "get_checked env w (login_url st) = (Inr response, w1) \<and>
            BeautifulSoup env (resp_text response) = Inr soup"
    then show "get_pdf_link env st w = (Inr (find_pdf_link st soup), st, w1)"
      using f by (simp add: get_pdf_link_def get_pdf_link_body_def catch_request_def)
  }
  {
    assume "get_checked env w (login_url st) = (Inr response, w1) \<and>
            BeautifulSoup env (resp_text response) = Inr soup \<and>
            find_where soup ''a'' results_link_matches = None"
    then show "check_results env st w = (Inr (evaluate_rows soup), st, w1)"
      using f n
      by (simp add: check_results_def check_results_body_def locate_results_page_def
          catch_request_def)
  }
  {
    assume "get_checked env w (login_url st) = (Inr response, w1) \<and>
            BeautifulSoup env (resp_text response) = Inr soup \<and>
            find_where soup ''a'' results_link_matches = Some link \<and>
            get_checked env w1 (absolutize st (attr_or link ''href'' '''')) = (Inr response2, w2) \<and>
            BeautifulSoup env (resp_text response2) = Inr soup2"
    then show "check_results env st w = (Inr (evaluate_rows soup2), st, w2)"
      using f n
      by (simp add: check_results_def check_results_body_def locate_results_page_def
          catch_request_def)
  }
  {
    assume l: "login_url st \<noteq> []"
    have "fetch_start env (st\<lparr>results_url := Some (login_url st)\<rparr>) w
            = get_checked env w (login_url st)"
      using l by (simp add: fetch_start_def truthy_def)
    then show "fst (get_pdf_link env st w)
                 = fst (get_pdf_link env (st\<lparr>results_url := Some (login_url st)\<rparr>) w)"
      using f
      by (simp add: get_pdf_link_def get_pdf_link_body_def find_pdf_link_results_url
          split: prod.splits sum.splits)
  }
  show "fst (download_pdf env (st\<lparr>results_url := x\<rparr>) w pdf_url)
          = fst (download_pdf env st w pdf_url)"
    by (rule download_pdf_results_url)
qed

theorem unauthenticated_calls_proceed_witness:
  "results_url init = None \<and>
   get_checked down_env () (login_url init) = (Inl RequestException, ()) \<and>
   check_results down_env init () = (Inr False, init, ()) \<and>
   get_pdf_link down_env init () = (Inr None, init, ()) \<and>
   get_checked links_env () (login_url init)
     = (Inr (ok_response (login_url init) ''<a>''), ()) \<and>
   get_pdf_link links_env init ()
     = (Inr (Some ''https://lablaudo.com.br/download_pdf''), init, ())"
proof -
  have n: "results_url init = None"
    by (simp add: init_def)
  have d: "get_checked down_env () (login_url init) = (Inl RequestException, ())"
    by (simp add: get_checked_def down_env_def fixed_env_def)
  let ?r = "ok_response (login_url init) ''<a>''"
  have g: "get_checked links_env () (login_url init) = (Inr ?r, ())"
    by (simp add: get_checked_def links_env_def fixed_env_def ok_response_def
        raise_for_status_def)
  have s: "BeautifulSoup links_env (resp_text ?r) = Inr links_page"
    by (simp add: links_env_def fixed_env_def)
  have l: "find_pdf_link init links_page = Some ''https://lablaudo.com.br/download_pdf''"
    by code_simp
  from unauthenticated_calls_proceed [OF n, of down_env "()" "()"] d
  have "check_results down_env init () = (Inr False, init, ()) \<and>
        get_pdf_link down_env init () = (Inr None, init, ())"
    by blast
  moreover from unauthenticated_calls_proceed [OF n, of links_env "()" "()" ?r links_page] g s
  have "get_pdf_link links_env init () = (Inr (find_pdf_link init links_page), init, ())"
    by blast
  ultimately show ?thesis using n d g l by simp
qed

section \<open>The verdict of \<open>login\<close>\<close>

text \<open>
  C3 as stated fails: a response body that shows \<open>entrar\<close>, no \<open>login\<close> and no success
  marker is accepted, although neither signal of the claim holds (no marker occurs, and
  the two tokens are not both absent).
\<close>

theorem entrar_login_succeeds:
  "fst (login entrar_env init () ''user'' ''secret'') = Inr True \<and>
   \<not> (list_ex (contains (lower ''entrar'')) success_indicators \<or>
      (\<not> contains (lower ''entrar'') ''entrar'' \<and> \<not> contains (lower ''entrar'') ''login''))"
  by code_simp

text \<open>
  C3 (as amended). Once the login page has a form and the form has been posted, \<open>login\<close>
  returns true exactly when (a) some marker of the fixed set occurs in the lower-cased
  response body, or (b) at least one of the tokens \<open>entrar\<close> and \<open>login\<close> is absent from
  it.
\<close>

theorem login_verdict:
  assumes "get_checked env w (login_url st) = (Inr response, w1)"
    and "BeautifulSoup env (resp_text response) = Inr soup"
    and "find_tag soup ''form'' = Some form"
    and "post_checked env w1 (action_url_for st form) (login_data_for form username password)
           = (Inr login_response, w2)"
  shows "fst (login env st w username password) =
           Inr ((\<exists>marker \<in> set success_indicators.
                   contains (lower (resp_text login_response)) marker) \<or>
                \<not> contains (lower (resp_text login_response)) ''entrar'' \<or>
                \<not> contains (lower (resp_text login_response)) ''login'')"
  using assms
  by (simp add: login_def login_body_def login_succeeded_def catch_request_def Let_def
      list_ex_iff)

theorem login_verdict_witness:
  "get_checked entrar_env () (login_url init)
     = (Inr (ok_response (login_url init) ''<form></form>''), ()) \<and>
   BeautifulSoup entrar_env ''<form></form>'' = Inr (document [Tag ''form'' [] [] []]) \<and>
   find_tag (document [Tag ''form'' [] [] []]) ''form'' = Some (Tag ''form'' [] [] []) \<and>
   fst (login entrar_env init () ''user'' ''secret'') = Inr True"
proof -
  let ?r = "ok_response (login_url init) ''<form></form>''"
  let ?d = "document [Tag ''form'' [] [] []]"
  let ?f = "Tag ''form'' [] [] []"
  have g: "get_checked entrar_env () (login_url init) = (Inr ?r, ())"
    by (simp add: get_checked_def entrar_env_def fixed_env_def ok_response_def
        raise_for_status_def)
  have b: "BeautifulSoup entrar_env (resp_text ?r) = Inr ?d"
    by (simp add: entrar_env_def fixed_env_def ok_response_def form_parse_def)
  have f: "find_tag ?d ''form'' = Some ?f"
    by code_simp
  have p: "post_checked entrar_env () (action_url_for init ?f)
             (login_data_for ?f ''user'' ''secret'')
           = (Inr (ok_response (action_url_for init ?f) ''entrar''), ())"
    by (simp add: post_checked_def entrar_env_def fixed_env_def ok_response_def
        raise_for_status_def)
  have v: "\<not> contains (lower (resp_text (ok_response (action_url_for init ?f) ''entrar'')))
              ''login''"
    by code_simp
  have t: "resp_text ?r = ''<form></form>''" by (simp add: ok_response_def)
  from login_verdict [OF g b f p] v
  have "fst (login entrar_env init () ''user'' ''secret'') = Inr True" by simp
  with g b f t show ?thesis by simp
qed

section \<open>The link to the document\<close>

lemma text_links_loop_find:
  "text_links_loop st links =
     map_option (\<lambda>link. absolutize st (attr_or link ''href'' '''')) (find text_matches links)"
  by (induction links) (auto simp: Let_def)

lemma laudo_links_loop_find:
  "laudo_links_loop st links =
     map_option (\<lambda>link. absolutize st (attr_or link ''href'' '''')) (find laudo_matches links)"
  by (induction links) (auto simp: Let_def laudo_matches_def)

lemma find_pdf_link_passes:
  "find_pdf_link st soup =
     (case find text_matches (anchors soup) of
        Some link \<Rightarrow> Some (absolutize st (attr_or link ''href'' ''''))
      | None \<Rightarrow> map_option (\<lambda>link. absolutize st (attr_or link ''href'' ''''))
                  (find laudo_matches (anchors soup)))"
  by (simp add: find_pdf_link_def text_links_loop_find laudo_links_loop_find anchors_def
      split: option.splits)

text \<open>
  C6. On a fetched page, when some anchor with an \<open>href\<close> has a text that contains one of
  the phrases, \<open>get_pdf_link\<close> returns the absolutized \<open>href\<close> of the first such anchor,
  whatever anchors to \<open>/get_laudo\<close> the page has; only when no anchor matches by text does
  it return the absolutized \<open>href\<close> of the first anchor to \<open>/get_laudo\<close>; when neither
  pass finds an anchor it returns \<open>None\<close>.
\<close>

theorem get_pdf_link_prefers_text:
  assumes "fetch_start env st w = (Inr response, w1)"
    and "BeautifulSoup env (resp_text response) = Inr soup"
  shows "(find text_matches (anchors soup) = Some link \<longrightarrow>
            fst (get_pdf_link env st w) = Inr (Some (absolutize st (attr_or link ''href'' '''')))) \<and>
         (find text_matches (anchors soup) = None \<and>
          find laudo_matches (anchors soup) = Some link \<longrightarrow>
            fst (get_pdf_link env st w) = Inr (Some (absolutize st (attr_or link ''href'' '''')))) \<and>
         (find text_matches (anchors soup) = None \<and>
          find laudo_matches (anchors soup) = None \<longrightarrow>
            fst (get_pdf_link env st w) = Inr None)"
  using assms
  by (simp add: get_pdf_link_def get_pdf_link_body_def catch_request_def find_pdf_link_passes)

theorem get_pdf_link_prefers_text_witness:
  "fetch_start links_env init () = (Inr (ok_response (login_url init) ''<a>''), ()) \<and>
   find text_matches (anchors links_page) = Some baixar_link \<and>
   find laudo_matches (anchors links_page) = Some laudo_link \<and>
   fst (get_pdf_link links_env init ()) = Inr (Some ''https://lablaudo.com.br/download_pdf'')"
proof -
  let ?r = "ok_response (login_url init) ''<a>''"
  have g: "fetch_start links_env init () = (Inr ?r, ())"
    by (simp add: fetch_start_def get_checked_def links_env_def fixed_env_def ok_response_def
        raise_for_status_def init_def)
  have s: "BeautifulSoup links_env (resp_text ?r) = Inr links_page"
    by (simp add: links_env_def fixed_env_def)
  have t: "find text_matches (anchors links_page) = Some baixar_link"
    by code_simp
  have l: "find laudo_matches (anchors links_page) = Some laudo_link"
    by code_simp
  have a: "absolutize init (attr_or baixar_link ''href'' '''')
             = ''https://lablaudo.com.br/download_pdf''"
    by code_simp
  from get_pdf_link_prefers_text [OF g s, of baixar_link] t a
  have "fst (get_pdf_link links_env init ()) = Inr (Some ''https://lablaudo.com.br/download_pdf'')"
    by simp
  with g t l show ?thesis by simp
qed

section \<open>The downloaded document\<close>

text \<open>
  C2 as stated fails: a candidate payload that does not start with \<open>%PDF\<close> does not make
  \<open>download_pdf\<close> return \<open>None\<close> when a later recovery strategy finds a PDF. Here the
  source of the \<open>iframe\<close> is rejected and the document behind the link is returned.
\<close>

theorem rejected_candidate_falls_through:
  "html_candidates (frame_env ''%PDF-1.4'') init () frame_page = [Inr ''<p>'', Inr ''%PDF-1.4''] \<and>
   take 4 ''<p>'' \<noteq> ''%PDF'' \<and>
   fst (download_pdf (frame_env ''%PDF-1.4'') init () ''https://lablaudo.com.br/laudo'')
     = Inr (Some (''%PDF-1.4'', ''lab_results.pdf''))"
  by code_simp

text \<open>
  C2 (as amended). Whenever \<open>download_pdf\<close> returns a payload, its first four bytes are
  \<open>%PDF\<close>, on every path. When the response itself is the candidate (it is declared as a
  PDF, or as neither PDF nor html) and does not start with \<open>%PDF\<close>, \<open>download_pdf\<close>
  returns \<open>None\<close>. In the html branch a candidate that does not start with \<open>%PDF\<close> is
  passed over and the next one is tried: the result is the first candidate of the three
  strategies that starts with \<open>%PDF\<close>, and it is \<open>None\<close> when every candidate is
  rejected.
\<close>

theorem download_pdf_signature:
  "(fst (download_pdf env st w pdf_url) = Inr (Some (content, filename)) \<longrightarrow>
      take 4 content = ''%PDF'') \<and>
   (get_checked env w pdf_url = (Inr response, w1) \<and>
    (contains (lower (header_or_empty response ''content-type'')) ''pdf'' \<or>
     \<not> contains (lower (header_or_empty response ''content-type'')) ''html'') \<and>
    take 4 (resp_content response) \<noteq> ''%PDF'' \<longrightarrow>
      fst (download_pdf env st w pdf_url) = Inr None) \<and>
   (get_checked env w pdf_url = (Inr response, w1) \<and>
    \<not> contains (lower (header_or_empty response ''content-type'')) ''pdf'' \<and>
    contains (lower (header_or_empty response ''content-type'')) ''html'' \<and>
    BeautifulSoup env (resp_text response) = Inr soup \<longrightarrow>
      fst (download_pdf env st w pdf_url)
        = catch_request None (first_accepted (html_candidates env st w1 soup))) \<and>
   (get_checked env w pdf_url = (Inr response, w1) \<and>
    \<not> contains (lower (header_or_empty response ''content-type'')) ''pdf'' \<and>
    contains (lower (header_or_empty response ''content-type'')) ''html'' \<and>
    BeautifulSoup env (resp_text response) = Inr soup \<and>
    (\<forall>x \<in> set (html_candidates env st w1 soup). \<exists>c. x = Inr c \<and> take 4 c \<noteq> ''%PDF'') \<longrightarrow>
      fst (download_pdf env st w pdf_url) = Inr None)"
proof (intro conjI impI)
  assume "fst (download_pdf env st w pdf_url) = Inr (Some (content, filename))"
  then have "startswith content ''%PDF''" by (rule download_pdf_payload)
  then show "take 4 content = ''%PDF''" by (simp add: startswith_pdf)
next
  assume "get_checked env w pdf_url = (Inr response, w1) \<and>
    (contains (lower (header_or_empty response ''content-type'')) ''pdf'' \<or>
     \<not> contains (lower (header_or_empty response ''content-type'')) ''html'') \<and>
    take 4 (resp_content response) \<noteq> ''%PDF''"
  then show "fst (download_pdf env st w pdf_url) = Inr None"
    by (simp add: download_pdf_direct direct_pdf_def startswith_pdf)
next
  assume "get_checked env w pdf_url = (Inr response, w1) \<and>
    \<not> contains (lower (header_or_empty response ''content-type'')) ''pdf'' \<and>
    contains (lower (header_or_empty response ''content-type'')) ''html'' \<and>
    BeautifulSoup env (resp_text response) = Inr soup"
  then show "fst (download_pdf env st w pdf_url)
        = catch_request None (first_accepted (html_candidates env st w1 soup))"
    by (simp add: download_pdf_html(1))
next
  assume a: "get_checked env w pdf_url = (Inr response, w1) \<and>
    \<not> contains (lower (header_or_empty response ''content-type'')) ''pdf'' \<and>
    contains (lower (header_or_empty response ''content-type'')) ''html'' \<and>
    BeautifulSoup env (resp_text response) = Inr soup \<and>
    (\<forall>x \<in> set (html_candidates env st w1 soup). \<exists>c. x = Inr c \<and> take 4 c \<noteq> ''%PDF'')"
  then have "\<forall>x \<in> set (html_candidates env st w1 soup).
               \<exists>c. x = Inr c \<and> \<not> startswith c ''%PDF''"
    by (simp add: startswith_pdf)
  then have "first_accepted (html_candidates env st w1 soup) = Inr None"
    by (rule first_accepted_rejected)
  with a show "fst (download_pdf env st w pdf_url) = Inr None"
    by (simp add: download_pdf_html(1) catch_request_Inr)
qed

theorem download_pdf_signature_witness:
  "fst (download_pdf pdf_env init () ''https://lablaudo.com.br/laudo.pdf'')
     = Inr (Some (''%PDF-1.4'', ''laudo.pdf'')) \<and>
   take 4 ''%PDF-1.4'' = ''%PDF'' \<and>
   get_checked fake_pdf_env () ''https://lablaudo.com.br/laudo.pdf''
     = (Inr (pdf_response ''https://lablaudo.com.br/laudo.pdf'' ''<html>''), ()) \<and>
   fst (download_pdf fake_pdf_env init () ''https://lablaudo.com.br/laudo.pdf'') = Inr None \<and>
   get_checked (frame_env ''<q>'') () ''https://lablaudo.com.br/laudo''
     = (Inr (html_response ''https://lablaudo.com.br/laudo'' ''<iframe>''), ()) \<and>
   html_candidates (frame_env ''<q>'') init () frame_page = [Inr ''<p>'', Inr ''<q>''] \<and>
   fst (download_pdf (frame_env ''<q>'') init () ''https://lablaudo.com.br/laudo'') = Inr None"
proof -
  let ?u = "''https://lablaudo.com.br/laudo.pdf''"
  let ?v = "''https://lablaudo.com.br/laudo''"
  have a: "fst (download_pdf pdf_env init () ?u) = Inr (Some (''%PDF-1.4'', ''laudo.pdf''))"
    by code_simp
  have g: "get_checked fake_pdf_env () ?u = (Inr (pdf_response ?u ''<html>''), ())"
    by (simp add: get_checked_def fake_pdf_env_def fixed_env_def pdf_response_def
        raise_for_status_def)
  have c: "contains (lower (header_or_empty (pdf_response ?u ''<html>'') ''content-type'')) ''pdf''"
    by code_simp
  have n: "take 4 (resp_content (pdf_response ?u ''<html>'')) \<noteq> ''%PDF''"
    by (simp add: pdf_response_def)
  have h: "get_checked (frame_env ''<q>'') () ?v = (Inr (html_response ?v ''<iframe>''), ())"
    by (simp add: get_checked_def frame_env_def fixed_env_def html_response_def
        raise_for_status_def)
  have t: "\<not> contains (lower (header_or_empty (html_response ?v ''<iframe>'') ''content-type''))
              ''pdf''"
    "contains (lower (header_or_empty (html_response ?v ''<iframe>'') ''content-type'')) ''html''"
    by code_simp+
  have p: "BeautifulSoup (frame_env ''<q>'') (resp_text (html_response ?v ''<iframe>''))
             = Inr frame_page"
    by (simp add: frame_env_def fixed_env_def)
  have k: "html_candidates (frame_env ''<q>'') init () frame_page = [Inr ''<p>'', Inr ''<q>'']"
    by code_simp
  have r: "\<forall>x \<in> set (html_candidates (frame_env ''<q>'') init () frame_page).
             \<exists>c. x = Inr c \<and> take 4 c \<noteq> ''%PDF''"
    unfolding k by simp
  from download_pdf_signature [of pdf_env init "()" ?u "''%PDF-1.4''" "''laudo.pdf''"] a
  have "take 4 ''%PDF-1.4'' = ''%PDF''" by blast
  moreover from download_pdf_signature [of fake_pdf_env init "()" ?u _ _
      "pdf_response ?u ''<html>''" "()"] g c n
  have "fst (download_pdf fake_pdf_env init () ?u) = Inr None" by blast
  moreover from download_pdf_signature [of "frame_env ''<q>''" init "()" ?v _ _
      "html_response ?v ''<iframe>''" "()" frame_page] h t p r
  have "fst (download_pdf (frame_env ''<q>'') init () ?v) = Inr None" by blast
  ultimately show ?thesis using a g h k by blast
qed

subsection \<open>The file name\<close>

lemma split_from_not_Nil: "split_from sep cur s \<noteq> []"
  by (induction sep cur s rule: split_from.induct) auto

text \<open>The \<open>filename=\<close> parameter of a header, with its quotes removed.\<close>

lemma filename_from_header_example:
  "filename_from_header (''attachment; filename='' @ [CHR 0x22] @ ''report.pdf'' @ [CHR 0x22])
     ''lab_results.pdf'' = ''report.pdf''"
  by code_simp

text \<open>
  The scan of the URL for a part with a dot does not stop at the path: it goes on through
  the host name. A header that names the file \<open>lab_results.pdf\<close> counts as no header.
\<close>

lemma filename_from_url_host:
  "filename_from_url ''https://lablaudo.com.br/download?x=1'' ''lab_results.pdf''
     = ''lablaudo.com.br''"
  by code_simp

lemma filename_from_url_overrides_header:
  "filename_from_url ''https://lablaudo.com.br/x.pdf''
     (filename_from_header ''attachment; filename=lab_results.pdf'' ''lab_results.pdf'')
     = ''x.pdf''"
  by code_simp

text \<open>
  C7. For a direct download the claim derives the file name from the header, else from
  the last path segment of the URL when that segment has a dot, else as
  \<open>lab_results.pdf\<close>. The code departs from it: for the URL
  \<open>https://lablaudo.com.br/download?x=1\<close>, a PDF response and no \<open>Content-Disposition\<close>
  header, whose last segment has no dot, \<open>download_pdf\<close> names the file after the host,
  \<open>lablaudo.com.br.pdf\<close>, where the claim gives \<open>lab_results.pdf\<close>.
\<close>

theorem download_names_file_after_host:
  "download_pdf pdf_env init () ''https://lablaudo.com.br/download?x=1''
     = (Inr (Some (''%PDF-1.4'', ''lablaudo.com.br.pdf'')), init, ())"
  by code_simp

end
